theory Spec2Isabelle
  imports Complex_Main
begin

section \<open>JavaScript numbers\<close>

text \<open>
  Every number of \<^verbatim>\<open>GridMaps.ts\<close> is an IEEE double. A finite double is kept here as
  the rational it denotes; NaN and the two infinities are values of their own, since the
  decoder's default resolution is 0 and the grid dimensions are quotients by the resolution.
  Every sum, product and quotient is rounded to the nearest double, a tie going to the even
  significand, as the arithmetic of the language does. The sign of zero is outside this
  embedding.
\<close>

datatype jsnum = Num rat | NaN | PosInf | NegInf

text \<open>
  The binary exponent of a positive rational \<open>x\<close>, that is the \<open>k\<close> with
  \<open>2^k \<le> x < 2^(k+1)\<close>, counted by halving or doubling.
\<close>

function halvings :: "rat \<Rightarrow> nat" where
  "halvings x = (if x < 2 then 0 else Suc (halvings (x / 2)))"
  by pat_completeness auto
termination
proof (relation "measure (\<lambda>x. nat \<lfloor>x\<rfloor>)")
  fix x :: rat
  assume "\<not> x < 2"
  then have "2 \<le> x" by simp
  then have "\<lfloor>x / 2\<rfloor> < \<lfloor>x\<rfloor>" and "0 < \<lfloor>x\<rfloor>" by linarith+
  then show "(x / 2, x) \<in> measure (\<lambda>x. nat \<lfloor>x\<rfloor>)" by simp
qed simp

function doublings :: "rat \<Rightarrow> nat" where
  "doublings x = (if x \<le> 0 \<or> 1 \<le> x then 0 else Suc (doublings (x * 2)))"
  by pat_completeness auto
termination
proof (relation "measure (\<lambda>x. nat \<lceil>1 / x\<rceil>)")
  fix x :: rat
  assume "\<not> (x \<le> 0 \<or> 1 \<le> x)"
  then have x: "0 < x" "x < 1" by simp_all
  then have "1 < 1 / x" by simp
  then have "1 / (x * 2) = (1 / x) / 2" "2 \<le> \<lceil>1 / x\<rceil>" by (simp_all add: field_simps)
  then have "\<lceil>1 / (x * 2)\<rceil> < \<lceil>1 / x\<rceil>" by linarith
  moreover have "0 < \<lceil>1 / x\<rceil>" using x by simp
  ultimately show "(x * 2, x) \<in> measure (\<lambda>x. nat \<lceil>1 / x\<rceil>)" by simp
qed simp

definition binade :: "rat \<Rightarrow> int" where
  "binade x = (if 1 \<le> x then int (halvings x) else - int (doublings x))"

text \<open>Rounding to the nearest integer, a tie going to the even one.\<close>

definition rne :: "rat \<Rightarrow> int" where
  "rne m =
     (let f = \<lfloor>m\<rfloor> in
      if m - of_int f < 1 / 2 then f
      else if 1 / 2 < m - of_int f then f + 1
      else if even f then f else f + 1)"

text \<open>
  The exponent of the unit in the last place of a double of the magnitude of \<open>x\<close>: 53
  significant bits, and the fixed spacing \<open>2^-1074\<close> below \<open>2^-1022\<close>.
\<close>

definition ulp_exp :: "rat \<Rightarrow> int" where
  "ulp_exp x = max (binade \<bar>x\<bar>) (- 1022) - 52"

text \<open>
  The double nearest to a real number, before the check for overflow: the nearest multiple of
  the unit in the last place.
\<close>

definition round_double :: "rat \<Rightarrow> rat" where
  "round_double x =
     (if x = 0 then 0
      else sgn x * (of_int (rne (\<bar>x\<bar> / 2 powi ulp_exp x)) * 2 powi ulp_exp x))"

definition inf_signed :: "bool \<Rightarrow> jsnum" where
  "inf_signed positive = (if positive then PosInf else NegInf)"

text \<open>The result of an arithmetic operation whose exact value is \<open>x\<close>.\<close>

definition fl :: "rat \<Rightarrow> jsnum" where
  "fl x = (if 2 ^ 1024 \<le> \<bar>round_double x\<bar> then inf_signed (0 < x) else Num (round_double x))"

fun js_add :: "jsnum \<Rightarrow> jsnum \<Rightarrow> jsnum" where
  "js_add (Num a) (Num b) = fl (a + b)"
| "js_add NaN _ = NaN"
| "js_add _ NaN = NaN"
| "js_add PosInf NegInf = NaN"
| "js_add NegInf PosInf = NaN"
| "js_add PosInf _ = PosInf"
| "js_add _ PosInf = PosInf"
| "js_add NegInf _ = NegInf"
| "js_add _ NegInf = NegInf"

fun js_mul :: "jsnum \<Rightarrow> jsnum \<Rightarrow> jsnum" where
  "js_mul (Num a) (Num b) = fl (a * b)"
| "js_mul NaN _ = NaN"
| "js_mul _ NaN = NaN"
| "js_mul (Num a) PosInf = (if a = 0 then NaN else inf_signed (0 < a))"
| "js_mul (Num a) NegInf = (if a = 0 then NaN else inf_signed (a < 0))"
| "js_mul PosInf (Num b) = (if b = 0 then NaN else inf_signed (0 < b))"
| "js_mul NegInf (Num b) = (if b = 0 then NaN else inf_signed (b < 0))"
| "js_mul PosInf PosInf = PosInf"
| "js_mul NegInf NegInf = PosInf"
| "js_mul PosInf NegInf = NegInf"
| "js_mul NegInf PosInf = NegInf"

fun js_div :: "jsnum \<Rightarrow> jsnum \<Rightarrow> jsnum" where
  "js_div (Num a) (Num b) =
     (if b = 0 then (if a = 0 then NaN else inf_signed (0 < a)) else fl (a / b))"
| "js_div NaN _ = NaN"
| "js_div _ NaN = NaN"
| "js_div (Num a) _ = Num 0"
| "js_div PosInf (Num b) = inf_signed (0 \<le> b)"
| "js_div NegInf (Num b) = inf_signed (b < 0)"
| "js_div _ _ = NaN"

text \<open>The comparison \<^verbatim>\<open><\<close> and the strict (in)equalities \<^verbatim>\<open>===\<close>, \<^verbatim>\<open>!==\<close>.\<close>

fun js_lt :: "jsnum \<Rightarrow> jsnum \<Rightarrow> bool" where
  "js_lt (Num a) (Num b) = (a < b)"
| "js_lt NaN _ = False"
| "js_lt _ NaN = False"
| "js_lt NegInf b = (b \<noteq> NegInf)"
| "js_lt a PosInf = (a \<noteq> PosInf)"
| "js_lt _ _ = False"

definition js_seq :: "jsnum \<Rightarrow> jsnum \<Rightarrow> bool" where
  "js_seq a b = (a \<noteq> NaN \<and> a = b)"

definition js_sne :: "jsnum \<Rightarrow> jsnum \<Rightarrow> bool" where
  "js_sne a b = (\<not> js_seq a b)"

text \<open>\<^verbatim>\<open>Math.trunc\<close> and \<^verbatim>\<open>Math.round\<close> (halves go up).\<close>

definition trunc :: "rat \<Rightarrow> int" where
  "trunc q = (if 0 \<le> q then \<lfloor>q\<rfloor> else \<lceil>q\<rceil>)"


text \<open>
  \<^verbatim>\<open>x | 0\<close> is ToInt32 of ToNumber of \<^verbatim>\<open>x\<close>: NaN and the infinities give 0, a finite number
  is truncated and wrapped into the signed 32-bit range.
\<close>

fun ToInt32 :: "jsnum \<Rightarrow> int" where
  "ToInt32 (Num q) =
     (let m = trunc q mod 2 ^ 32 in if 2 ^ 31 \<le> m then m - 2 ^ 32 else m)"
| "ToInt32 _ = 0"

text \<open>
  The conversion of a number stored into a \<^verbatim>\<open>Uint8ClampedArray\<close> (ToUint8Clamp): clamp to
  0..255, then round to the nearest integer, a tie going to the even neighbour.
\<close>

definition ToUint8Clamp :: "rat \<Rightarrow> nat" where
  "ToUint8Clamp x =
     (if x \<le> 0 then 0
      else if 255 \<le> x then 255
      else let f = \<lfloor>x\<rfloor> in
        if of_int f + 1 / 2 < x then nat (f + 1)
        else if x < of_int f + 1 / 2 then nat f
        else if even f then nat f else nat (f + 1))"

section \<open>Exceptions\<close>

datatype exn = TypeError | ReferenceError | RangeError | Nontermination

text \<open>
  The length argument of \<^verbatim>\<open>new Uint8ClampedArray(len)\<close> (ToIndex): NaN counts as 0, a
  finite number is truncated, and a result below 0 or above \<open>2^53 - 1\<close> raises a RangeError.
  An engine refuses lengths far below that bound as well, depending on the memory it has;
  that refusal is not part of this embedding, which lets every admissible length succeed.
\<close>

fun ToIndex :: "jsnum \<Rightarrow> exn + nat" where
  "ToIndex (Num q) =
     (let n = trunc q in if n < 0 \<or> 2 ^ 53 - 1 < n then Inl RangeError else Inr (nat n))"
| "ToIndex NaN = Inr 0"
| "ToIndex _ = Inl RangeError"

section \<open>Messages, settings and scene objects\<close>

record Time =
  sec :: int
  nsec :: int

record Header =
  stamp :: Time
  frame_id :: string

record Pose =
  position :: "rat \<times> rat \<times> rat"
  orientation :: "rat \<times> rat \<times> rat \<times> rat"

record MultiArrayDimension =
  label :: string
  size_d :: jsnum
  stride :: jsnum

record Layer =
  layout_dim :: "MultiArrayDimension list"
  layer_data :: "jsnum list"

record GridInfo =
  resolution :: jsnum
  length_x :: jsnum
  length_y :: jsnum
  pose :: Pose

record GridMap =
  header :: Header
  info :: GridInfo
  data :: "Layer list"

text \<open>The partial message: every field may be absent.\<close>

record PartialHeader =
  p_stamp :: "Time option"
  p_frame_id :: "string option"

record PartialLayer =
  p_layout_dim :: "MultiArrayDimension list option"
  p_layer_data :: "jsnum list option"

record PartialInfo =
  p_resolution :: "jsnum option"
  p_length_x :: "jsnum option"
  p_length_y :: "jsnum option"
  p_pose :: "Pose option"

record PartialGridMap =
  p_header :: "PartialHeader option"
  p_info :: "PartialInfo option"
  p_data :: "PartialLayer list option"

record LayerSettingsGridMap =
  visible :: bool
  frameLocked :: bool
  minColor :: string
  maxColor :: string
  unknownColor :: string
  invalidColor :: string

record ColorRGBA =
  r :: rat
  g :: rat
  b :: rat
  a :: rat

text \<open>
  Functions of the repository that \<^verbatim>\<open>GridMaps.ts\<close> calls and that live in other files
  (\<^verbatim>\<open>../color\<close>, \<^verbatim>\<open>../Renderer\<close>, \<^verbatim>\<open>../normalizeMessages\<close>) are parameters of the
  embedding. A parsed color has finite components. \<^verbatim>\<open>normalizeFloat32MultiArray\<close> is
  called by \<^verbatim>\<open>normalizeGridMap\<close>, but the file neither imports nor defines it: the
  parameter is \<open>None\<close> where the name is unbound when the call is evaluated, as it is
  with the file as written, and \<open>Some\<close> of the function where something has bound it.
\<close>

record env =
  stringToRgba :: "string \<Rightarrow> ColorRGBA"
  rgbaToCssString :: "ColorRGBA \<Rightarrow> string"
  SRGBToLinear :: "rat \<Rightarrow> rat"
  normalizeFrameId :: "string \<Rightarrow> string"
  normalizeFloat32MultiArray :: "(PartialLayer \<Rightarrow> Layer) option"

text \<open>
  A \<^verbatim>\<open>THREE.DataTexture\<close>: the byte buffer \<^verbatim>\<open>image.data\<close> with the width and height it
  was created with. Textures are objects shared between the renderable and its material, so
  they live in a store and are named by their address.
\<close>

record DataTexture =
  image_data :: "nat list"
  image_width :: jsnum
  image_height :: jsnum
  needsUpdate :: bool
  disposed :: bool

datatype ShapeError = InsufficientDimensions | SizeMismatch jsnum jsnum

record GridMapUserData =
  topic :: string
  settings :: LayerSettingsGridMap
  gridMap :: GridMap
  pose_ud :: Pose
  receiveTime :: int
  messageTime :: int
  frameId :: string
  texture :: nat
  material_map :: nat
  material_transparent :: bool
  material_depthWrite :: bool
  scale :: "jsnum \<times> jsnum \<times> jsnum"

record world =
  textures :: "nat \<Rightarrow> DataTexture"
  next_texture :: nat
  errors :: "string \<times> string \<rightharpoonup> ShapeError"

definition INVALID_GRID_MAP :: string where
  "INVALID_GRID_MAP = ''INVALID_GRID_MAP''"

definition DEFAULT_MIN_COLOR :: ColorRGBA where
  "DEFAULT_MIN_COLOR = \<lparr>r = 1, g = 1, b = 1, a = 1\<rparr>"

definition DEFAULT_MAX_COLOR :: ColorRGBA where
  "DEFAULT_MAX_COLOR = \<lparr>r = 0, g = 0, b = 0, a = 1\<rparr>"

definition DEFAULT_UNKNOWN_COLOR :: ColorRGBA where
  "DEFAULT_UNKNOWN_COLOR = \<lparr>r = 1 / 2, g = 1 / 2, b = 1 / 2, a = 1\<rparr>"

definition DEFAULT_INVALID_COLOR :: ColorRGBA where
  "DEFAULT_INVALID_COLOR = \<lparr>r = 1, g = 0, b = 1, a = 1\<rparr>"

definition DEFAULT_SETTINGS :: "env \<Rightarrow> LayerSettingsGridMap" where
  "DEFAULT_SETTINGS e =
     \<lparr>visible = False, frameLocked = False,
      minColor = rgbaToCssString e DEFAULT_MIN_COLOR,
      maxColor = rgbaToCssString e DEFAULT_MAX_COLOR,
      unknownColor = rgbaToCssString e DEFAULT_UNKNOWN_COLOR,
      invalidColor = rgbaToCssString e DEFAULT_INVALID_COLOR\<rparr>"

definition toNanoSec :: "Time \<Rightarrow> int" where
  "toNanoSec t = sec t * 1000000000 + nsec t"

section \<open>Colors\<close>

text \<open>
  The arithmetic on color components rounds like every other operation. Components lie
  between 0 and 1 and the bytes between 0 and 255, so no overflow is reckoned with here.
\<close>

definition srgbToLinearUint8 :: "env \<Rightarrow> ColorRGBA \<Rightarrow> ColorRGBA" where
  "srgbToLinearUint8 e color =
     \<lparr>r = of_int (trunc (round_double (SRGBToLinear e (r color) * 255))),
      g = of_int (trunc (round_double (SRGBToLinear e (g color) * 255))),
      b = of_int (trunc (round_double (SRGBToLinear e (b color) * 255))),
      a = of_int (trunc (round_double (a color * 255)))\<rparr>"

definition occupancyGridHasTransparency :: "env \<Rightarrow> LayerSettingsGridMap \<Rightarrow> bool" where
  "occupancyGridHasTransparency e st =
     (let tempMinColor = stringToRgba e (minColor st);
          tempMaxColor = stringToRgba e (maxColor st);
          tempUnknownColor = stringToRgba e (unknownColor st);
          tempInvalidColor = stringToRgba e (invalidColor st)
      in a tempMinColor < 1 \<or> a tempMaxColor < 1 \<or> a tempInvalidColor < 1
         \<or> a tempUnknownColor < 1)"

text \<open>The four temporary colors of \<^verbatim>\<open>updateTexture\<close>, after parsing and linearization.\<close>

record ramp =
  tempMinColor :: ColorRGBA
  tempMaxColor :: ColorRGBA
  tempUnknownColor :: ColorRGBA
  tempInvalidColor :: ColorRGBA

definition linearRamp :: "env \<Rightarrow> LayerSettingsGridMap \<Rightarrow> ramp" where
  "linearRamp e st =
     \<lparr>tempMinColor = srgbToLinearUint8 e (stringToRgba e (minColor st)),
      tempMaxColor = srgbToLinearUint8 e (stringToRgba e (maxColor st)),
      tempUnknownColor = srgbToLinearUint8 e (stringToRgba e (unknownColor st)),
      tempInvalidColor = srgbToLinearUint8 e (stringToRgba e (invalidColor st))\<rparr>"

section \<open>The recolor pass\<close>

text \<open>
  The body of the loop of \<^verbatim>\<open>updateTexture\<close>: the four numbers assigned to
  \<^verbatim>\<open>rgba[offset + 0 .. offset + 3]\<close> for a cell value, before the array converts them
  to bytes.
\<close>

definition cellRgba :: "ramp \<Rightarrow> int \<Rightarrow> rat \<times> rat \<times> rat \<times> rat" where
  "cellRgba c v =
     (if v = - 1 then
        (r (tempUnknownColor c), g (tempUnknownColor c), b (tempUnknownColor c),
         a (tempUnknownColor c))
      else if 0 \<le> v \<and> v \<le> 100 then
        (let t = round_double (of_int v / 100) in
         if t = 1 then (0, 0, 0, 0)
         else
           (round_double (r (tempMinColor c)
              + round_double (round_double (r (tempMaxColor c) - r (tempMinColor c)) * t)),
            round_double (g (tempMinColor c)
              + round_double (round_double (g (tempMaxColor c) - g (tempMinColor c)) * t)),
            round_double (b (tempMinColor c)
              + round_double (round_double (b (tempMaxColor c) - b (tempMinColor c)) * t)),
            round_double (a (tempMinColor c)
              + round_double (round_double (a (tempMaxColor c) - a (tempMinColor c)) * t))))
      else
        (r (tempInvalidColor c), g (tempInvalidColor c), b (tempInvalidColor c),
         a (tempInvalidColor c)))"

text \<open>
  An assignment \<^verbatim>\<open>rgba[j] = x\<close> on a \<^verbatim>\<open>Uint8ClampedArray\<close>: the number is converted
  by ToUint8Clamp, and an index past the end of the buffer is ignored.
\<close>

definition store :: "nat list \<Rightarrow> nat \<Rightarrow> rat \<Rightarrow> nat list" where
  "store rgba j x = (if j < length rgba then rgba[j := ToUint8Clamp x] else rgba)"

definition paintCell :: "ramp \<Rightarrow> int \<Rightarrow> nat \<Rightarrow> nat list \<Rightarrow> nat list" where
  "paintCell c v i rgba =
     (let offset = i * 4 in
      case cellRgba c v of (x0, x1, x2, x3) \<Rightarrow>
        store (store (store (store rgba (offset + 0) x0) (offset + 1) x1) (offset + 2) x2)
          (offset + 3) x3)"

text \<open>
  \<^verbatim>\<open>data[i]\<close> reads the array \<^verbatim>\<open>gridMap.data\<close>, whose elements are the layers: the
  result is a layer object, or \<^verbatim>\<open>undefined\<close> past the end. ToNumber of \<^verbatim>\<open>undefined\<close> is
  NaN; ToNumber of an ordinary object goes through its string form \<^verbatim>\<open>[object Object]\<close>,
  which is no numeral, so it is NaN too.
\<close>

datatype jsval = JUndefined | JObject Layer

definition element :: "Layer list \<Rightarrow> nat \<Rightarrow> jsval" where
  "element xs i = (if i < length xs then JObject (xs ! i) else JUndefined)"

fun ToNumber :: "jsval \<Rightarrow> jsnum" where
  "ToNumber JUndefined = NaN"
| "ToNumber (JObject _) = NaN"

text \<open>
  The loop \<^verbatim>\<open>for (let i = 0; i < size; i++)\<close>. With an infinite \<^verbatim>\<open>size\<close> it never
  exits, which is the value \<open>None\<close>.
\<close>

partial_function (option) recolorLoop ::
  "ramp \<Rightarrow> Layer list \<Rightarrow> jsnum \<Rightarrow> nat \<Rightarrow> nat list \<Rightarrow> nat list option" where
  "recolorLoop c xs sz i rgba =
     (if js_lt (Num (of_nat i)) sz
      then recolorLoop c xs sz (Suc i)
             (paintCell c (ToInt32 (ToNumber (element xs i))) i rgba)
      else Some rgba)"

definition updateTexture ::
  "env \<Rightarrow> nat \<Rightarrow> GridMap \<Rightarrow> LayerSettingsGridMap \<Rightarrow> world \<Rightarrow> exn + world" where
  "updateTexture e tx gm st w =
     (let height = js_div (length_x (info gm)) (resolution (info gm));
          width = js_div (length_y (info gm)) (resolution (info gm));
          sz = js_mul width height;
          rgba = image_data (textures w tx)
      in case recolorLoop (linearRamp e st) (data gm) sz 0 rgba of
           None \<Rightarrow> Inl Nontermination
         | Some rgba' \<Rightarrow>
             Inr (w\<lparr>textures := (textures w)
                    (tx := (textures w tx)\<lparr>image_data := rgba', needsUpdate := True\<rparr>)\<rparr>))"

section \<open>Textures\<close>

definition createTexture :: "GridMap \<Rightarrow> world \<Rightarrow> exn + nat \<times> world" where
  "createTexture gm w =
     (let height = js_div (length_x (info gm)) (resolution (info gm));
          width = js_div (length_y (info gm)) (resolution (info gm));
          sz = js_mul width height
      in case ToIndex (js_mul sz (Num 4)) of
           Inl x \<Rightarrow> Inl x
         | Inr n \<Rightarrow>
             Inr (next_texture w,
                  w\<lparr>textures := (textures w)
                       (next_texture w :=
                          \<lparr>image_data = replicate n 0, image_width = width,
                           image_height = height, needsUpdate = False, disposed = False\<rparr>),
                    next_texture := Suc (next_texture w)\<rparr>))"

definition dispose :: "nat \<Rightarrow> world \<Rightarrow> world" where
  "dispose tx w = w\<lparr>textures := (textures w)(tx := (textures w tx)\<lparr>disposed := True\<rparr>)\<rparr>"

section \<open>Validation and the update of a renderable\<close>

definition invalidGridMapError :: "GridMapUserData \<Rightarrow> ShapeError \<Rightarrow> world \<Rightarrow> world" where
  "invalidGridMapError rd m w = w\<lparr>errors := (errors w)((topic rd, INVALID_GRID_MAP) \<mapsto> m)\<rparr>"

definition layer_size :: "Layer \<Rightarrow> jsnum" where
  "layer_size layer = foldl (\<lambda>acc dim. js_add acc (size_d dim)) (Num 0) (layout_dim layer)"

text \<open>
  The loop over the layers in \<^verbatim>\<open>_updateGridMapRenderable\<close>; \<open>Some\<close> is the diagnostic
  of the layer at which the method returns early. The two messages of the source are the two
  constructors of \<open>ShapeError\<close>, the second with the width and height it prints.
\<close>

fun checkLayers :: "jsnum \<Rightarrow> jsnum \<Rightarrow> Layer list \<Rightarrow> ShapeError option" where
  "checkLayers width height [] = None"
| "checkLayers width height (layer # rest) =
     (if length (layout_dim layer) < 2 then Some InsufficientDimensions
      else if js_sne (layer_size layer) (js_mul width height)
        then Some (SizeMismatch width height)
      else checkLayers width height rest)"

text \<open>
  An exception ends the method; the state it leaves behind is not tracked.
\<close>

definition updateGridMapRenderable ::
  "env \<Rightarrow> GridMapUserData \<Rightarrow> GridMap \<Rightarrow> int \<Rightarrow> world
     \<Rightarrow> exn + GridMapUserData \<times> world" where
  "updateGridMapRenderable e rd gm rt w =
     (let rd1 = rd\<lparr>gridMap := gm, pose_ud := pose (info gm), receiveTime := rt,
                   messageTime := toNanoSec (stamp (header gm)),
                   frameId := normalizeFrameId e (frame_id (header gm))\<rparr>;
          res = resolution (info gm);
          height = js_div (length_x (info gm)) res;
          width = js_div (length_y (info gm)) res
      in case checkLayers width height (data gm) of
           Some m \<Rightarrow> Inr (rd1, invalidGridMapError rd1 m w)
         | None \<Rightarrow>
            (case (if js_sne width (image_width (textures w (texture rd1)))
                      \<or> js_sne height (image_height (textures w (texture rd1)))
                   then (case createTexture gm (dispose (texture rd1) w) of
                           Inl x \<Rightarrow> Inl x
                         | Inr (tx, w1) \<Rightarrow> Inr (rd1\<lparr>texture := tx, material_map := tx\<rparr>, w1))
                   else Inr (rd1, w)) of
               Inl x \<Rightarrow> Inl x
             | Inr (rd2, w2) \<Rightarrow>
                (case updateTexture e (texture rd2) gm (settings rd2) w2 of
                   Inl x \<Rightarrow> Inl x
                 | Inr w3 \<Rightarrow>
                     Inr (rd2\<lparr>scale := (js_mul res width, js_mul res height, Num 1)\<rparr>, w3))))"

section \<open>The decoder\<close>

text \<open>
  Modelled from the spec: \<^verbatim>\<open>normalizeHeader\<close> of \<^verbatim>\<open>../normalizeMessages\<close>, which is
  not among the sources. Missing header fields become a zero timestamp and an empty frame id.
\<close>

definition normalizeHeader :: "PartialHeader option \<Rightarrow> Header" where
  "normalizeHeader h =
     (case h of
        None \<Rightarrow> \<lparr>stamp = \<lparr>sec = 0, nsec = 0\<rparr>, frame_id = []\<rparr>
      | Some ph \<Rightarrow>
          \<lparr>stamp = (case p_stamp ph of None \<Rightarrow> \<lparr>sec = 0, nsec = 0\<rparr> | Some t \<Rightarrow> t),
           frame_id = (case p_frame_id ph of None \<Rightarrow> [] | Some f \<Rightarrow> f)\<rparr>)"

definition identityPose :: Pose where
  "identityPose = \<lparr>position = (0, 0, 0), orientation = (0, 0, 0, 1)\<rparr>"

text \<open>
  Modelled from the spec: \<^verbatim>\<open>normalizePose\<close> of \<^verbatim>\<open>../normalizeMessages\<close>, which is not
  among the sources. A missing pose becomes the identity pose.
\<close>

definition normalizePose :: "Pose option \<Rightarrow> Pose" where
  "normalizePose p = (case p of None \<Rightarrow> identityPose | Some q \<Rightarrow> q)"

definition emptyInfo :: PartialInfo where
  "emptyInfo = \<lparr>p_resolution = None, p_length_x = None, p_length_y = None, p_pose = None\<rparr>"

definition nullish :: "'a option \<Rightarrow> 'a \<Rightarrow> 'a" where
  "nullish x d = (case x of None \<Rightarrow> d | Some y \<Rightarrow> y)"

text \<open>
  \<^verbatim>\<open>message.data.map(...)\<close> reads a property of \<^verbatim>\<open>message.data\<close>: with the field absent
  this is a TypeError. With the field present the argument is evaluated next, a
  ReferenceError where the name \<^verbatim>\<open>normalizeFloat32MultiArray\<close> is unbound.
\<close>

definition normalizeGridMap :: "env \<Rightarrow> PartialGridMap \<Rightarrow> exn + GridMap" where
  "normalizeGridMap e message =
     (let i = nullish (p_info message) emptyInfo in
      case p_data message of
        None \<Rightarrow> Inl TypeError
      | Some layers \<Rightarrow>
         (case normalizeFloat32MultiArray e of
            None \<Rightarrow> Inl ReferenceError
          | Some nf \<Rightarrow>
              Inr \<lparr>header = normalizeHeader (p_header message),
                   info = \<lparr>resolution = nullish (p_resolution i) (Num 0),
                           length_x = nullish (p_length_x i) (Num 0),
                           length_y = nullish (p_length_y i) (Num 0),
                           pose = normalizePose (p_pose i)\<rparr>,
                   data = map nf layers\<rparr>))"

section \<open>The message handler\<close>

record PartialSettings =
  s_visible :: "bool option"
  s_frameLocked :: "bool option"
  s_minColor :: "string option"
  s_maxColor :: "string option"
  s_unknownColor :: "string option"
  s_invalidColor :: "string option"

definition mergeSettings :: "env \<Rightarrow> PartialSettings option \<Rightarrow> LayerSettingsGridMap" where
  "mergeSettings e u =
     (case u of
        None \<Rightarrow> DEFAULT_SETTINGS e
      | Some p \<Rightarrow>
          \<lparr>visible = nullish (s_visible p) (visible (DEFAULT_SETTINGS e)),
           frameLocked = nullish (s_frameLocked p) (frameLocked (DEFAULT_SETTINGS e)),
           minColor = nullish (s_minColor p) (minColor (DEFAULT_SETTINGS e)),
           maxColor = nullish (s_maxColor p) (maxColor (DEFAULT_SETTINGS e)),
           unknownColor = nullish (s_unknownColor p) (unknownColor (DEFAULT_SETTINGS e)),
           invalidColor = nullish (s_invalidColor p) (invalidColor (DEFAULT_SETTINGS e))\<rparr>)"

record scene =
  renderables :: "string \<rightharpoonup> GridMapUserData"
  config_topics :: "string \<rightharpoonup> PartialSettings"
  wld :: world

record MessageEvent =
  ev_topic :: string
  ev_message :: PartialGridMap
  ev_receiveTime :: Time

definition handleOccupancyGrid :: "env \<Rightarrow> MessageEvent \<Rightarrow> scene \<Rightarrow> exn + scene" where
  "handleOccupancyGrid e ev s =
     (case normalizeGridMap e (ev_message ev) of
        Inl x \<Rightarrow> Inl x
      | Inr gm \<Rightarrow>
         (let rt = toNanoSec (ev_receiveTime ev) in
          case (case renderables s (ev_topic ev) of
                  Some rd \<Rightarrow> Inr (rd, wld s)
                | None \<Rightarrow>
                   (let st = mergeSettings e (config_topics s (ev_topic ev)) in
                    case createTexture gm (wld s) of
                      Inl x \<Rightarrow> Inl x
                    | Inr (tx, w1) \<Rightarrow>
                        Inr (\<lparr>topic = ev_topic ev, settings = st, gridMap = gm,
                              pose_ud = pose (info gm), receiveTime = rt,
                              messageTime = toNanoSec (stamp (header gm)),
                              frameId = normalizeFrameId e (frame_id (header gm)),
                              texture = tx, material_map = tx,
                              material_transparent = occupancyGridHasTransparency e st,
                              material_depthWrite = (\<not> occupancyGridHasTransparency e st),
                              scale = (Num 1, Num 1, Num 1)\<rparr>, w1))) of
            Inl x \<Rightarrow> Inl x
          | Inr (rd, w1) \<Rightarrow>
             (case updateGridMapRenderable e rd gm rt w1 of
                Inl x \<Rightarrow> Inl x
              | Inr (rd', w2) \<Rightarrow>
                  Inr (s\<lparr>renderables := (renderables s)(ev_topic ev \<mapsto> rd'), wld := w2\<rparr>))))"

section \<open>Derived notions and sample data\<close>

text \<open>
  The color ramp in the words of the specification: linear interpolation per channel,
  \<open>lo + (hi - lo) * t\<close> in double arithmetic, the parameter \<open>t\<close> being a double as well.
\<close>

definition lerp :: "rat \<Rightarrow> rat \<Rightarrow> rat \<Rightarrow> rat" where
  "lerp lo hi t = round_double (lo + round_double (round_double (hi - lo) * round_double t))"

definition quad :: "ColorRGBA \<Rightarrow> rat \<times> rat \<times> rat \<times> rat" where
  "quad c = (r c, g c, b c, a c)"

definition lerpColor :: "ColorRGBA \<Rightarrow> ColorRGBA \<Rightarrow> rat \<Rightarrow> rat \<times> rat \<times> rat \<times> rat" where
  "lerpColor lo hi t =
     (lerp (r lo) (r hi) t, lerp (g lo) (g hi) t, lerp (b lo) (b hi) t, lerp (a lo) (a hi) t)"


text \<open>Painting the cells \<open>i..<n\<close> with the cell value 0.\<close>

definition paintAll :: "ramp \<Rightarrow> nat \<Rightarrow> nat \<Rightarrow> nat list \<Rightarrow> nat list" where
  "paintAll c i n rgba = foldl (\<lambda>acc k. paintCell c 0 k acc) rgba [i..<n]"

text \<open>
  A layer that the validation loop lets pass, and the product of the declared dimension
  sizes, which the loop does not compute.
\<close>

definition layer_ok :: "jsnum \<Rightarrow> jsnum \<Rightarrow> Layer \<Rightarrow> bool" where
  "layer_ok width height layer \<longleftrightarrow>
     2 \<le> length (layout_dim layer) \<and> js_seq (layer_size layer) (js_mul width height)"

definition layer_product :: "Layer \<Rightarrow> jsnum" where
  "layer_product layer =
     foldl (\<lambda>acc dim. js_mul acc (size_d dim)) (Num 1) (layout_dim layer)"

text \<open>A layer with the given dimension sizes and no cells.\<close>

definition dims :: "rat list \<Rightarrow> Layer" where
  "dims ns =
     \<lparr>layout_dim = map (\<lambda>n. \<lparr>label = [], size_d = Num n, stride = Num 0\<rparr>) ns,
      layer_data = []\<rparr>"

definition demoRamp :: ramp where
  "demoRamp =
     \<lparr>tempMinColor = \<lparr>r = 255, g = 255, b = 255, a = 255\<rparr>,
      tempMaxColor = \<lparr>r = 0, g = 0, b = 0, a = 255\<rparr>,
      tempUnknownColor = \<lparr>r = 55, g = 55, b = 55, a = 255\<rparr>,
      tempInvalidColor = \<lparr>r = 255, g = 0, b = 255, a = 255\<rparr>\<rparr>"

text \<open>
  The height, width and size that \<^verbatim>\<open>_updateGridMapRenderable\<close>, \<^verbatim>\<open>createTexture\<close> and
  \<^verbatim>\<open>updateTexture\<close> each compute from the grid's metadata.
\<close>

definition gridHeight :: "GridMap \<Rightarrow> jsnum" where
  "gridHeight gm = js_div (length_x (info gm)) (resolution (info gm))"

definition gridWidth :: "GridMap \<Rightarrow> jsnum" where
  "gridWidth gm = js_div (length_y (info gm)) (resolution (info gm))"

definition gridSize :: "GridMap \<Rightarrow> jsnum" where
  "gridSize gm = js_mul (gridWidth gm) (gridHeight gm)"

text \<open>A grid whose layers all pass the validation loop.\<close>

definition passesValidation :: "GridMap \<Rightarrow> bool" where
  "passesValidation gm \<longleftrightarrow> checkLayers (gridWidth gm) (gridHeight gm) (data gm) = None"

text \<open>
  A valid grid in the sense of the data model: width and height resolve to non-negative
  integers, and the layers pass validation.
\<close>

fun is_count :: "jsnum \<Rightarrow> bool" where
  "is_count (Num q) = (0 \<le> q \<and> of_int \<lfloor>q\<rfloor> = q)"
| "is_count _ = False"



text \<open>The number of iterations of the recolor loop for a size that is not infinite.\<close>

fun cells :: "jsnum \<Rightarrow> nat" where
  "cells (Num q) = nat \<lceil>q\<rceil>"
| "cells _ = 0"

text \<open>The renderable after the five assignments that precede validation.\<close>

definition stamped :: "env \<Rightarrow> GridMapUserData \<Rightarrow> GridMap \<Rightarrow> int \<Rightarrow> GridMapUserData" where
  "stamped e rd gm rt =
     rd\<lparr>gridMap := gm, pose_ud := pose (info gm), receiveTime := rt,
        messageTime := toNanoSec (stamp (header gm)),
        frameId := normalizeFrameId e (frame_id (header gm))\<rparr>"

text \<open>
  A texture after a recolor pass, a texture as \<^verbatim>\<open>createTexture\<close> makes it, and the bytes
  of the linearized min color.
\<close>

definition repainted :: "ramp \<Rightarrow> GridMap \<Rightarrow> DataTexture \<Rightarrow> DataTexture" where
  "repainted c gm t =
     t\<lparr>image_data := paintAll c 0 (cells (gridSize gm)) (image_data t), needsUpdate := True\<rparr>"

definition blank :: "GridMap \<Rightarrow> nat \<Rightarrow> DataTexture" where
  "blank gm n =
     \<lparr>image_data = replicate n 0, image_width = gridWidth gm, image_height = gridHeight gm,
      needsUpdate = False, disposed = False\<rparr>"


text \<open>Sample parameters, grids and scene objects.\<close>

definition demoEnv :: env where
  "demoEnv =
     \<lparr>stringToRgba = (\<lambda>s. DEFAULT_MIN_COLOR), rgbaToCssString = (\<lambda>c. []),
      SRGBToLinear = (\<lambda>x. x), normalizeFrameId = (\<lambda>s. s),
      normalizeFloat32MultiArray =
        Some (\<lambda>p. \<lparr>layout_dim = nullish (p_layout_dim p) [],
                     layer_data = nullish (p_layer_data p) []\<rparr>)\<rparr>"

definition gridOf :: "rat \<Rightarrow> rat \<Rightarrow> Layer list \<Rightarrow> GridMap" where
  "gridOf lx ly layers =
     \<lparr>header = \<lparr>stamp = \<lparr>sec = 0, nsec = 0\<rparr>, frame_id = ''map''\<rparr>,
      info = \<lparr>resolution = Num 1, length_x = Num lx, length_y = Num ly, pose = identityPose\<rparr>,
      data = layers\<rparr>"

definition demoRenderable :: GridMapUserData where
  "demoRenderable =
     \<lparr>topic = ''/grid'', settings = DEFAULT_SETTINGS demoEnv,
      gridMap = gridOf 2 2 [dims [2, 2]], pose_ud = identityPose, receiveTime = 0,
      messageTime = 0, frameId = ''map'', texture = 0, material_map = 0,
      material_transparent = False, material_depthWrite = True,
      scale = (Num 2, Num 2, Num 1)\<rparr>"

definition demoWorld :: world where
  "demoWorld =
     \<lparr>textures = (\<lambda>_. blank (gridOf 2 2 [dims [2, 2]]) 16), next_texture = 1,
      errors = Map.empty\<rparr>"






section \<open>Rounding to a double\<close>

text \<open>
  The exponent functions find the binade of a number, rounding to the nearest even integer
  stays within the neighbouring integers, and a number that is a double already is left as
  it is.
\<close>

lemma halvings_spec: "1 \<le> x \<Longrightarrow> 2 ^ halvings x \<le> x \<and> x < 2 ^ Suc (halvings x)"
proof (induction x rule: halvings.induct)
  case (1 x)
  show ?case
  proof (cases "x < 2")
    case True
    with 1(2) show ?thesis by (subst (1 2) halvings.simps) simp
  next
    case False
    then have "1 \<le> x / 2" by simp
    from 1(1) [OF False this] False show ?thesis
      by (subst (1 2) halvings.simps) (simp add: field_simps)
  qed
qed

lemma doublings_spec:
  "0 < x \<Longrightarrow> x < 1 \<Longrightarrow> 1 \<le> x * 2 ^ doublings x \<and> x * 2 ^ doublings x < 2"
proof (induction x rule: doublings.induct)
  case (1 x)
  show ?case
  proof (cases "x * 2 < 1")
    case True
    have nb: "\<not> (x \<le> 0 \<or> 1 \<le> x)" using 1(2,3) by simp
    have pos: "0 < x * 2" using 1(2) by simp
    from 1(1) [OF nb pos True] nb show ?thesis
      by (subst (1 2) doublings.simps) (simp add: field_simps)
  next
    case False
    have nb: "\<not> (x \<le> 0 \<or> 1 \<le> x)" using 1(2,3) by simp
    have "doublings (x * 2) = 0" using False by (subst doublings.simps) simp
    with nb False 1(3) show ?thesis
      by (subst (1 2) doublings.simps) simp
  qed
qed

lemma binade_spec:
  assumes "0 < x"
  shows "2 powi binade x \<le> x" "x < 2 powi (binade x + 1)"
proof -
  show "2 powi binade x \<le> x"
  proof (cases "1 \<le> x")
    case True
    with halvings_spec [OF True] show ?thesis by (simp add: binade_def power_int_def)
  next
    case False
    then have lt: "x < 1" by simp
    from doublings_spec [OF assms lt] have "1 \<le> x * 2 ^ doublings x" by simp
    then have "1 / 2 ^ doublings x \<le> x" by (simp add: field_simps)
    moreover have "2 powi (- int (doublings x)) = (1::rat) / 2 ^ doublings x"
      by (simp add: power_int_minus inverse_eq_divide)
    ultimately show ?thesis using False by (simp add: binade_def)
  qed
  show "x < 2 powi (binade x + 1)"
  proof (cases "1 \<le> x")
    case True
    have "int (halvings x) + 1 = int (Suc (halvings x))" by simp
    with halvings_spec [OF True] True show ?thesis
      by (simp only: binade_def if_True power_int_of_nat)
  next
    case False
    then have lt: "x < 1" by simp
    from doublings_spec [OF assms lt] have b: "x * 2 ^ doublings x < 2" by simp
    have "(2::rat) powi (- int (doublings x) + 1) = 2 powi (- int (doublings x)) * 2 powi 1"
      by (rule power_int_add) simp
    also have "\<dots> = 2 / 2 ^ doublings x"
      by (simp add: power_int_minus inverse_eq_divide)
    finally have "2 powi (- int (doublings x) + 1) = (2::rat) / 2 ^ doublings x" .
    moreover from b have "x < 2 / 2 ^ doublings x" by (simp add: field_simps)
    ultimately show ?thesis using False by (simp add: binade_def)
  qed
qed

lemma binade_less:
  assumes "0 < x" "x < 2 powi k"
  shows "binade x < k"
proof (rule ccontr)
  assume "\<not> binade x < k"
  then have "k \<le> binade x" by simp
  then have "(2::rat) powi k \<le> 2 powi binade x" by (intro power_int_increasing) simp_all
  with binade_spec(1) [OF assms(1)] assms(2) show False by simp
qed

lemma rne_bounds: "\<lfloor>m\<rfloor> \<le> rne m" "rne m \<le> \<lceil>m\<rceil>"
proof -
  show "\<lfloor>m\<rfloor> \<le> rne m" by (simp add: rne_def Let_def)
  have "m - of_int \<lfloor>m\<rfloor> = 0 \<or> \<lfloor>m\<rfloor> + 1 \<le> \<lceil>m\<rceil>"
    by (metis add.commute ceiling_altdef diff_self eq_iff le_less of_int_floor_cancel floor_of_int order_refl)
  then show "rne m \<le> \<lceil>m\<rceil>"
    by (auto simp: rne_def Let_def)
qed

lemma rne_of_int: "rne (of_int k) = k"
  by (simp add: rne_def)

lemma rne_le: "m \<le> of_int K \<Longrightarrow> rne m \<le> K"
  using rne_bounds(2) [of m] by (meson ceiling_le order_trans)

lemma rne_ge: "of_int K \<le> m \<Longrightarrow> K \<le> rne m"
  using rne_bounds(1) [of m] by (meson le_floor_iff order_trans)

lemma round_double_pos:
  "0 < x \<Longrightarrow> round_double x = of_int (rne (x / 2 powi ulp_exp x)) * 2 powi ulp_exp x"
  by (simp add: round_double_def)

lemma round_double_minus: "round_double (- x) = - round_double x"
  by (simp add: round_double_def ulp_exp_def sgn_minus)

lemma round_double_zero: "round_double 0 = 0"
  by (simp add: round_double_def)

lemma grid_point:
  assumes "p \<le> s"
  shows "of_int J * 2 powi s = (of_int (J * 2 ^ nat (s - p)) :: rat) * 2 powi p"
proof -
  have "(2::rat) powi s = 2 powi (s - p) * 2 powi p"
    by (simp add: power_int_add [symmetric])
  also have "(2::rat) powi (s - p) = 2 ^ nat (s - p)"
    using assms by (simp add: power_int_def)
  finally show ?thesis by simp
qed

lemma fence_le:
  assumes "0 < x" "x \<le> of_int J * 2 powi s" "ulp_exp x \<le> s"
  shows "round_double x \<le> of_int J * 2 powi s"
proof -
  define p where "p = ulp_exp x"
  define K where "K = J * 2 ^ nat (s - p)"
  have u: "(0::rat) < 2 powi p" by simp
  have y: "of_int J * 2 powi s = (of_int K :: rat) * 2 powi p"
    unfolding K_def using assms(3) by (intro grid_point) (simp add: p_def)
  from assms(2) have "x / 2 powi p \<le> of_int K"
    unfolding y using u by (simp add: field_simps)
  then have "rne (x / 2 powi p) \<le> K" by (rule rne_le)
  then have "(of_int (rne (x / 2 powi p)) :: rat) * 2 powi p \<le> of_int K * 2 powi p"
    using u by (simp add: mult_right_mono)
  then show ?thesis
    unfolding y round_double_pos [OF assms(1)] p_def .
qed

lemma fence_ge:
  assumes "0 < x" "of_int J * 2 powi s \<le> x" "ulp_exp x \<le> s"
  shows "of_int J * 2 powi s \<le> round_double x"
proof -
  define p where "p = ulp_exp x"
  define K where "K = J * 2 ^ nat (s - p)"
  have u: "(0::rat) < 2 powi p" by simp
  have y: "of_int J * 2 powi s = (of_int K :: rat) * 2 powi p"
    unfolding K_def using assms(3) by (intro grid_point) (simp add: p_def)
  from assms(2) have "of_int K \<le> x / 2 powi p"
    unfolding y using u by (simp add: field_simps)
  then have "K \<le> rne (x / 2 powi p)" by (rule rne_ge)
  then have "(of_int K :: rat) * 2 powi p \<le> of_int (rne (x / 2 powi p)) * 2 powi p"
    using u by (simp add: mult_right_mono)
  then show ?thesis
    unfolding y round_double_pos [OF assms(1)] p_def .
qed

lemma ulp_exp_le:
  assumes "0 < x" "x < 2 powi (s + 53)" "- 1074 \<le> s"
  shows "ulp_exp x \<le> s"
proof -
  from binade_less [OF assms(1,2)] have "binade x - 52 \<le> s" by simp
  with assms(1,3) show ?thesis by (simp add: ulp_exp_def)
qed

lemma round_double_exact_pos:
  assumes "0 < J" "J \<le> 2 ^ 53" "- 1074 \<le> s"
  shows "round_double (of_int J * 2 powi s) = of_int J * 2 powi s"
proof (cases "J = 2 ^ 53")
  case False
  with assms(2) have J: "J < 2 ^ 53" by simp
  define y :: rat where "y = of_int J * 2 powi s"
  have pos: "0 < y" using assms(1) by (simp add: y_def)
  have "(of_int J :: rat) < 2 ^ 53" using J by (metis of_int_less_iff of_int_numeral of_int_power)
  then have "y < 2 ^ 53 * 2 powi s" by (simp add: y_def)
  also have "\<dots> = 2 powi (s + 53)" by (simp add: power_int_add)
  finally have "ulp_exp y \<le> s" using pos assms(3) by (intro ulp_exp_le)
  with pos have "round_double y \<le> y" "y \<le> round_double y"
    unfolding y_def by (intro fence_le fence_ge; simp)+
  then show ?thesis by (simp add: y_def)
next
  case True
  define y :: rat where "y = of_int (2 ^ 52) * 2 powi (s + 1)"
  have same: "of_int J * 2 powi s = y"
    by (simp add: True y_def power_int_add)
  have pos: "0 < y" by (simp add: y_def)
  have "y < 2 ^ 53 * 2 powi (s + 1)" by (simp add: y_def)
  also have "\<dots> = 2 powi ((s + 1) + 53)" by (simp add: power_int_add)
  finally have "ulp_exp y \<le> s + 1" using pos assms(3) by (intro ulp_exp_le) simp_all
  with pos have "round_double y \<le> y" "y \<le> round_double y"
    unfolding y_def by (intro fence_le fence_ge; simp)+
  then show ?thesis by (simp add: same)
qed

lemma round_double_exact:
  assumes "\<bar>J\<bar> \<le> 2 ^ 53" "- 1074 \<le> s"
  shows "round_double (of_int J * 2 powi s) = of_int J * 2 powi s"
proof -
  consider "J = 0" | "0 < J" | "J < 0" by linarith
  then show ?thesis
  proof cases
    case 1 then show ?thesis by (simp add: round_double_zero)
  next
    case 2 with assms show ?thesis by (intro round_double_exact_pos) simp_all
  next
    case 3
    with assms have "round_double (of_int (- J) * 2 powi s) = of_int (- J) * 2 powi s"
      by (intro round_double_exact_pos) simp_all
    then show ?thesis using round_double_minus [of "of_int J * 2 powi s"] by simp
  qed
qed

lemma round_double_of_int: "\<bar>k\<bar> \<le> 2 ^ 53 \<Longrightarrow> round_double (of_int k) = of_int k"
  using round_double_exact [of k 0] by simp









lemma unit_interval_fraction:
  assumes "0 \<le> v" "v < 100"
  shows "round_double (of_int v / 100) < 1"
proof (cases "v = 0")
  case True
  then show ?thesis by (simp add: round_double_zero)
next
  case False
  define x :: rat where "x = of_int v / 100"
  from False assms have pos: "0 < x" by (simp add: x_def)
  from assms(2) have "v \<le> 99" by simp
  then have "(of_int v :: rat) \<le> 99" by (metis of_int_le_iff of_int_numeral)
  then have le: "x \<le> of_int 127 * 2 powi (- 7)"
    by (simp add: x_def power_int_minus field_simps)
  have "x < 2 powi (- 7 + 53)" using le by (simp add: power_int_minus power_int_add) 
  then have "ulp_exp x \<le> - 7" using pos by (intro ulp_exp_le) simp_all
  from fence_le [OF pos le this] have "round_double x \<le> of_int 127 * 2 powi (- 7)" .
  also have "\<dots> < (1::rat)" by (simp add: power_int_minus)
  finally show ?thesis by (simp add: x_def)
qed

lemma round_double_one: "round_double 1 = 1"
  using round_double_of_int [of 1] by simp

lemma fl_of_int: "\<bar>k\<bar> \<le> 2 ^ 53 \<Longrightarrow> fl (of_int k) = Num (of_int k)"
proof -
  assume k: "\<bar>k\<bar> \<le> 2 ^ 53"
  then have "\<bar>of_int k :: rat\<bar> \<le> 2 ^ 53"
    by (metis of_int_abs of_int_le_iff of_int_numeral of_int_power)
  also have "(2 ^ 53 :: rat) < 2 ^ 1024" by simp
  finally show ?thesis by (simp add: fl_def round_double_of_int [OF k])
qed


lemma fl_numeral: "numeral m \<le> (2 ^ 53 :: int) \<Longrightarrow> fl (numeral m) = Num (numeral m)"
  using fl_of_int [of "numeral m"] by simp

lemma fl_zero: "fl 0 = Num 0"
  using fl_of_int [of 0] by simp

lemma fl_one: "fl 1 = Num 1"
  using fl_of_int [of 1] by simp

lemma round_double_numeral:
  "numeral m \<le> (2 ^ 53 :: int) \<Longrightarrow> round_double (numeral m) = numeral m"
  using round_double_of_int [of "numeral m"] by simp

lemma round_double_neg_numeral:
  "numeral m \<le> (2 ^ 53 :: int) \<Longrightarrow> round_double (- numeral m) = - numeral m"
  using round_double_of_int [of "- numeral m"] by simp

lemmas fl_small = fl_numeral fl_zero fl_one
lemmas rd_small = round_double_numeral round_double_neg_numeral round_double_zero round_double_one


lemma binade_unique:
  assumes "0 < x" "2 powi k \<le> x" "x < 2 powi (k + 1)"
  shows "binade x = k"
proof -
  have "binade x < k + 1" using assms(1,3) by (rule binade_less)
  moreover have "k \<le> binade x"
  proof (rule ccontr)
    assume "\<not> k \<le> binade x"
    then have "binade x + 1 \<le> k" by simp
    then have "(2::rat) powi (binade x + 1) \<le> 2 powi k" by (intro power_int_increasing) simp_all
    with binade_spec(2) [OF assms(1)] assms(2) show False by simp
  qed
  ultimately show ?thesis by simp
qed

lemma rne_unique:
  assumes "\<bar>m - of_int J\<bar> < 1 / 2"
  shows "rne m = J"
proof -
  from assms have lo: "of_int J - 1 / 2 < m" and hi: "m < of_int J + 1 / 2" by linarith+
  show ?thesis
  proof (cases "of_int J \<le> m")
    case True
    with hi have "\<lfloor>m\<rfloor> = J" by (intro floor_unique) simp_all
    with hi show ?thesis by (simp add: rne_def)
  next
    case False
    with lo have "\<lfloor>m\<rfloor> = J - 1" by (intro floor_unique) simp_all
    with lo False show ?thesis by (simp add: rne_def)
  qed
qed

lemma round_double_certify:
  assumes "0 < x" "2 powi k \<le> x" "x < 2 powi (k + 1)" "- 1022 \<le> k"
    and "\<bar>x / 2 powi (k - 52) - of_int J\<bar> < 1 / 2"
  shows "round_double x = of_int J * 2 powi (k - 52)"
proof -
  have "binade x = k" using assms(1-3) by (rule binade_unique)
  with assms(1,4) have "ulp_exp x = k - 52" by (simp add: ulp_exp_def)
  with rne_unique [OF assms(5)] show ?thesis by (simp add: round_double_pos [OF assms(1)])
qed

lemma fl_finite: "\<bar>round_double x\<bar> < 2 ^ 1024 \<Longrightarrow> fl x = Num (round_double x)"
  by (simp add: fl_def)

lemma fl_exact:
  assumes "\<bar>J\<bar> \<le> 2 ^ 53" "- 1074 \<le> s" "s \<le> 900"
  shows "fl (of_int J * 2 powi s) = Num (of_int J * 2 powi s)"
proof -
  have "\<bar>of_int J :: rat\<bar> \<le> 2 ^ 53"
    using assms(1) by (metis of_int_abs of_int_le_iff of_int_numeral of_int_power)
  moreover have "(2::rat) powi s \<le> 2 powi 900" using assms(3) by (intro power_int_increasing) simp_all
  ultimately have "\<bar>of_int J :: rat\<bar> * 2 powi s \<le> 2 ^ 53 * 2 powi 900"
    by (intro mult_mono) simp_all
  also have "\<dots> < (2 ^ 1024 :: rat)" by simp
  finally have "\<bar>of_int J * 2 powi s :: rat\<bar> < 2 ^ 1024" by (simp add: abs_mult)
  then show ?thesis by (simp add: fl_def round_double_exact [OF assms(1,2)])
qed

lemma round_double_half:
  "numeral m \<le> (2 ^ 53 :: int) \<Longrightarrow> round_double (numeral m / 2) = numeral m / 2"
  using round_double_exact [of "numeral m" "- 1"] by (simp add: power_int_minus)

lemma round_double_quarter:
  "numeral m \<le> (2 ^ 53 :: int) \<Longrightarrow> round_double (numeral m / 4) = numeral m / 4"
  using round_double_exact [of "numeral m" "- 2"] by (simp add: power_int_minus)

lemma round_double_neg_half:
  "numeral m \<le> (2 ^ 53 :: int) \<Longrightarrow> round_double (- (numeral m / 2)) = - (numeral m / 2)"
  using round_double_exact [of "- numeral m" "- 1"] by (simp add: power_int_minus)

lemma round_double_unit_half: "round_double (1 / 2) = 1 / 2"
  using round_double_exact [of 1 "- 1"] by (simp add: power_int_minus)

lemma fl_half: "numeral m \<le> (2 ^ 53 :: int) \<Longrightarrow> fl (numeral m / 2) = Num (numeral m / 2)"
  using fl_exact [of "numeral m" "- 1"] by (simp add: power_int_minus)

lemma fl_quarter: "numeral m \<le> (2 ^ 53 :: int) \<Longrightarrow> fl (numeral m / 4) = Num (numeral m / 4)"
  using fl_exact [of "numeral m" "- 2"] by (simp add: power_int_minus)

lemmas fl_dyadic = fl_numeral fl_zero fl_one fl_half fl_quarter
lemmas rd_dyadic = round_double_numeral round_double_neg_numeral round_double_zero
  round_double_one round_double_half round_double_quarter round_double_neg_half
  round_double_unit_half


section \<open>The color ramp\<close>

text \<open>
  C1. For every cell value and every four colors, the numbers the per-cell mapping assigns
  are: the unknown color at the value -1; the linear interpolation between the min color and
  the max color at \<open>t = value / 100\<close> for 0 to 99, each operation a double operation; the
  quadruple (0, 0, 0, 0) at the value 100, whatever the max color is; and the invalid color for
  every value below -1 or above 100.
\<close>

theorem cellRgba_policy:
  "(v = - 1 \<longrightarrow> cellRgba c v = quad (tempUnknownColor c)) \<and>
   (0 \<le> v \<and> v < 100 \<longrightarrow>
      cellRgba c v = lerpColor (tempMinColor c) (tempMaxColor c) (of_int v / 100)) \<and>
   (v = 100 \<longrightarrow> cellRgba c v = (0, 0, 0, 0)) \<and>
   (v < - 1 \<or> 100 < v \<longrightarrow> cellRgba c v = quad (tempInvalidColor c))"
proof -
  have full: "round_double (of_int 100 / 100) = 1" by (simp add: round_double_one)
  have part: "round_double (of_int v / 100) \<noteq> 1" if "0 \<le> v" "v < 100"
    using unit_interval_fraction [OF that] by simp
  show ?thesis
    using full part by (auto simp: cellRgba_def quad_def lerpColor_def lerp_def Let_def)
qed

theorem cellRgba_policy_witness:
  "cellRgba demoRamp (- 1) = (55, 55, 55, 255) \<and>
   cellRgba demoRamp 50 = (255 / 2, 255 / 2, 255 / 2, 255) \<and>
   cellRgba demoRamp 100 = (0, 0, 0, 0) \<and>
   cellRgba demoRamp 101 = (255, 0, 255, 255) \<and>
   cellRgba demoRamp (- 2) = (255, 0, 255, 255)"
  using cellRgba_policy [of "- 1" demoRamp] cellRgba_policy [of 50 demoRamp]
    cellRgba_policy [of 100 demoRamp] cellRgba_policy [of 101 demoRamp]
    cellRgba_policy [of "- 2" demoRamp]
  by (simp add: demoRamp_def quad_def lerpColor_def lerp_def rd_dyadic)

section \<open>Transparency\<close>

text \<open>
  C6. The transparency policy reads the alpha channels of the four colors as parsed from the
  settings, before any linearization, and is true exactly when one of the min, max, unknown
  or invalid colors has an alpha below 1.
\<close>

theorem transparency_iff_some_alpha_below_one:
  "occupancyGridHasTransparency e st \<longleftrightarrow>
     a (stringToRgba e (minColor st)) < 1 \<or> a (stringToRgba e (maxColor st)) < 1 \<or>
     a (stringToRgba e (unknownColor st)) < 1 \<or> a (stringToRgba e (invalidColor st)) < 1"
  by (auto simp: occupancyGridHasTransparency_def Let_def)

section \<open>Validation of the layers\<close>

lemma checkLayers_append:
  "list_all (layer_ok w h) pre \<Longrightarrow> checkLayers w h (pre @ rest) = checkLayers w h rest"
  by (induction pre) (auto simp: layer_ok_def js_sne_def)

lemma checkLayers_None_iff: "checkLayers w h ls = None \<longleftrightarrow> list_all (layer_ok w h) ls"
  by (induction ls) (auto simp: layer_ok_def js_sne_def)

text \<open>
  C2. The layers are checked in order and the first offending layer decides, whatever layers
  follow it: after layers that pass, a layer with fewer than 2 declared dimensions fails with
  InsufficientDimensions, and a layer with at least 2 dimensions whose sum of declared sizes
  differs from width * height fails with SizeMismatch; a list in which every layer has at
  least 2 dimensions and the sum width * height passes.
\<close>

theorem checkLayers_first_failure:
  "(list_all (layer_ok w h) pre \<and> length (layout_dim l) < 2 \<longrightarrow>
      checkLayers w h (pre @ l # post) = Some InsufficientDimensions) \<and>
   (list_all (layer_ok w h) pre \<and> 2 \<le> length (layout_dim l)
      \<and> js_sne (layer_size l) (js_mul w h) \<longrightarrow>
      checkLayers w h (pre @ l # post) = Some (SizeMismatch w h)) \<and>
   (list_all (layer_ok w h) ls \<longrightarrow> checkLayers w h ls = None)"
  by (auto simp: checkLayers_append checkLayers_None_iff)

theorem checkLayers_first_failure_witness:
  "checkLayers (Num 2) (Num 2) ([dims [2, 2]] @ dims [4] # [dims [7, 7]])
     = Some InsufficientDimensions \<and>
   checkLayers (Num 2) (Num 2) ([dims [2, 2]] @ dims [3, 3] # [dims [1]])
     = Some (SizeMismatch (Num 2) (Num 2)) \<and>
   checkLayers (Num 2) (Num 2) [dims [2, 2], dims [1, 3], dims [1, 1, 2]] = None"
  using checkLayers_first_failure
      [of "Num 2" "Num 2" "[dims [2, 2]]" "dims [4]" "[dims [7, 7]]" "[]"]
    checkLayers_first_failure
      [of "Num 2" "Num 2" "[dims [2, 2]]" "dims [3, 3]" "[dims [1]]"
          "[dims [2, 2], dims [1, 3], dims [1, 1, 2]]"]
  by (simp add: dims_def layer_size_def layer_ok_def js_seq_def js_sne_def fl_dyadic)

text \<open>
  C10. The check compares the sum of the declared dimension sizes with width * height, not
  their product. On a 3 by 3 grid a layer declaring the sizes 4 and 5 (product 20, sum 9) is
  accepted, and a layer declaring 3 and 3 (product 9, sum 6) is rejected.
\<close>

theorem checkLayers_sums_sizes:
  "checkLayers (Num 3) (Num 3) [dims [4, 5]] = None \<and>
   layer_product (dims [4, 5]) = Num 20 \<and> js_mul (Num 3) (Num 3) = Num 9 \<and>
   checkLayers (Num 3) (Num 3) [dims [3, 3]] = Some (SizeMismatch (Num 3) (Num 3)) \<and>
   layer_product (dims [3, 3]) = Num 9"
  by (simp add: dims_def layer_size_def layer_product_def js_sne_def js_seq_def fl_dyadic)

section \<open>The decoder on a message without layers\<close>

text \<open>
  C4. A message whose \<^verbatim>\<open>data\<close> field is absent makes the decoder raise a TypeError; it
  returns no grid.
\<close>

theorem normalizeGridMap_absent_data:
  "normalizeGridMap e \<lparr>p_header = None, p_info = None, p_data = None\<rparr> = Inl TypeError"
  by (simp add: normalizeGridMap_def)

lemma normalizeGridMap_present:
  "p_data m = Some ls \<Longrightarrow> normalizeFloat32MultiArray e = Some nf \<Longrightarrow>
   normalizeGridMap e m =
     Inr \<lparr>header = normalizeHeader (p_header m),
          info = \<lparr>resolution = nullish (p_resolution (nullish (p_info m) emptyInfo)) (Num 0),
                  length_x = nullish (p_length_x (nullish (p_info m) emptyInfo)) (Num 0),
                  length_y = nullish (p_length_y (nullish (p_info m) emptyInfo)) (Num 0),
                  pose = normalizePose (p_pose (nullish (p_info m) emptyInfo))\<rparr>,
          data = map nf ls\<rparr>"
  by (simp add: normalizeGridMap_def Let_def)

lemma normalizeGridMap_unbound:
  "p_data m = Some ls \<Longrightarrow> normalizeFloat32MultiArray e = None \<Longrightarrow>
   normalizeGridMap e m = Inl ReferenceError"
  by (simp add: normalizeGridMap_def Let_def)

section \<open>The recolor loop\<close>

lemma coerced_element_zero: "ToInt32 (ToNumber (element xs i)) = 0"
  by (cases "element xs i") simp_all







lemma of_nat_less_rat_iff: "(of_nat i < (q::rat)) \<longleftrightarrow> i < nat \<lceil>q\<rceil>"
proof -
  have "(of_nat i < q) \<longleftrightarrow> (of_int (int i) < q)" by simp
  also have "\<dots> \<longleftrightarrow> int i < \<lceil>q\<rceil>" by (simp only: less_ceiling_iff)
  also have "\<dots> \<longleftrightarrow> i < nat \<lceil>q\<rceil>" by linarith
  finally show ?thesis .
qed

lemma recolorLoop_finite:
  "recolorLoop c xs (Num q) i rgba = Some (paintAll c i (nat \<lceil>q\<rceil>) rgba)"
proof (induction "nat \<lceil>q\<rceil> - i" arbitrary: i rgba)
  case 0
  then have "\<not> of_nat i < q" by (simp add: of_nat_less_rat_iff)
  with 0 show ?case
    by (subst recolorLoop.simps) (simp add: paintAll_def)
next
  case (Suc d)
  then have lt: "i < nat \<lceil>q\<rceil>" and d: "d = nat \<lceil>q\<rceil> - Suc i" by linarith+
  from lt have "of_nat i < q" by (simp add: of_nat_less_rat_iff)
  then show ?case
    by (subst recolorLoop.simps)
       (simp add: Suc.hyps(1) [OF d] coerced_element_zero paintAll_def upt_conv_Cons [OF lt])
qed

lemma recolorLoop_no_iteration:
  "sz = NaN \<or> sz = NegInf \<Longrightarrow> recolorLoop c xs sz i rgba = Some rgba"
  by (subst recolorLoop.simps) auto

lemma recolorLoop_Some_finite:
  assumes "recolorLoop c xs sz i rgba = Some y"
  shows "sz \<noteq> PosInf"
proof (rule recolorLoop.raw_induct [where P = "\<lambda>_ _ s _ _ _. s \<noteq> PosInf", OF _ assms])
  fix rec :: "ramp \<Rightarrow> Layer list \<Rightarrow> jsnum \<Rightarrow> nat \<Rightarrow> nat list \<Rightarrow> nat list option"
    and c1 xs1 s1 i1 rgba1 y1
  assume ih: "\<And>c2 xs2 s2 i2 rgba2 y2. rec c2 xs2 s2 i2 rgba2 = Some y2 \<Longrightarrow> s2 \<noteq> PosInf"
    and eq: "(if js_lt (Num (of_nat i1)) s1
              then rec c1 xs1 s1 (Suc i1)
                     (paintCell c1 (ToInt32 (ToNumber (element xs1 i1))) i1 rgba1)
              else Some rgba1) = Some y1"
  show "s1 \<noteq> PosInf"
  proof
    assume inf: "s1 = PosInf"
    with eq have "rec c1 xs1 s1 (Suc i1)
        (paintCell c1 (ToInt32 (ToNumber (element xs1 i1))) i1 rgba1) = Some y1"
      by simp
    from ih [OF this] inf show False by simp
  qed
qed

lemma recolorLoop_infinite: "recolorLoop c xs PosInf i rgba = None"
  using recolorLoop_Some_finite [of c xs PosInf i rgba] by (cases "recolorLoop c xs PosInf i rgba") auto



section \<open>Bytes of the raster\<close>




lemma floor_rat_numeral: "\<lfloor>numeral m / numeral n :: rat\<rfloor> = numeral m div numeral n"
  by (metis floor_divide_of_int_eq of_int_numeral)

lemma ToUint8Clamp_nearest:
  assumes "0 \<le> x" "x \<le> 255"
  shows "\<bar>of_nat (ToUint8Clamp x) - x\<bar> \<le> 1 / 2"
    and "\<bar>of_nat (ToUint8Clamp x) - x\<bar> = 1 / 2 \<Longrightarrow> even (ToUint8Clamp x)"
proof -
  define f where "f = \<lfloor>x\<rfloor>"
  have f0: "0 \<le> f" using assms(1) by (simp add: f_def)
  have lo: "of_int f \<le> x" and hi: "x < of_int f + 1" unfolding f_def by linarith+
  show "\<bar>of_nat (ToUint8Clamp x) - x\<bar> \<le> 1 / 2"
    using f0 lo hi assms unfolding ToUint8Clamp_def Let_def f_def [symmetric]
    by (auto simp: of_nat_nat abs_if)
  show "\<bar>of_nat (ToUint8Clamp x) - x\<bar> = 1 / 2 \<Longrightarrow> even (ToUint8Clamp x)"
    using f0 lo hi assms unfolding ToUint8Clamp_def Let_def f_def [symmetric]
    by (auto simp: of_nat_nat abs_if even_nat_iff split: if_splits)
qed

lemma ToUint8Clamp_clamps: "x < 0 \<Longrightarrow> ToUint8Clamp x = 0" "255 < x \<Longrightarrow> ToUint8Clamp x = 255"
  by (simp_all add: ToUint8Clamp_def)

section \<open>Textures and the update of a renderable\<close>

lemma recolorLoop_cells:
  "sz \<noteq> PosInf \<Longrightarrow> recolorLoop c xs sz 0 rgba = Some (paintAll c 0 (cells sz) rgba)"
  by (cases sz) (simp_all add: recolorLoop_finite recolorLoop_no_iteration paintAll_def)

lemma updateTexture_eq:
  "updateTexture e tx gm st w =
     (if gridSize gm = PosInf then Inl Nontermination
      else Inr (w\<lparr>textures := (textures w)(tx := repainted (linearRamp e st) gm (textures w tx))\<rparr>))"
  by (simp add: updateTexture_def Let_def gridSize_def gridWidth_def gridHeight_def
      repainted_def recolorLoop_cells recolorLoop_infinite)

lemma createTexture_eq:
  "createTexture gm w =
     (case ToIndex (js_mul (gridSize gm) (Num 4)) of
        Inl x \<Rightarrow> Inl x
      | Inr n \<Rightarrow>
          Inr (next_texture w,
               w\<lparr>textures := (textures w)(next_texture w := blank gm n),
                 next_texture := Suc (next_texture w)\<rparr>))"
  by (simp add: createTexture_def Let_def gridSize_def gridWidth_def gridHeight_def blank_def
      split: sum.splits)

lemma ToIndex_finite: "ToIndex (js_mul sz (Num 4)) = Inr n \<Longrightarrow> sz \<noteq> PosInf"
  by (cases sz) (auto simp: inf_signed_def)

lemma update_rejected:
  assumes "checkLayers (gridWidth gm) (gridHeight gm) (data gm) = Some m"
  shows "updateGridMapRenderable e rd gm rt w =
     Inr (stamped e rd gm rt,
          w\<lparr>errors := (errors w)((topic rd, INVALID_GRID_MAP) \<mapsto> m)\<rparr>)"
  using assms
  by (simp add: updateGridMapRenderable_def Let_def gridWidth_def gridHeight_def stamped_def
      invalidGridMapError_def)


lemma update_reallocates:
  assumes "passesValidation gm"
    and "js_sne (gridWidth gm) (image_width (textures w (texture rd)))
         \<or> js_sne (gridHeight gm) (image_height (textures w (texture rd)))"
    and "ToIndex (js_mul (gridSize gm) (Num 4)) = Inr n"
  shows "updateGridMapRenderable e rd gm rt w =
     Inr ((stamped e rd gm rt)
            \<lparr>texture := next_texture w, material_map := next_texture w,
             scale := (js_mul (resolution (info gm)) (gridWidth gm),
                       js_mul (resolution (info gm)) (gridHeight gm), Num 1)\<rparr>,
          w\<lparr>textures := (textures w)
               (texture rd := (textures w (texture rd))\<lparr>disposed := True\<rparr>,
                next_texture w := repainted (linearRamp e (settings rd)) gm (blank gm n)),
            next_texture := Suc (next_texture w)\<rparr>)"
proof -
  have chk: "checkLayers (js_div (length_y (info gm)) (resolution (info gm)))
      (js_div (length_x (info gm)) (resolution (info gm))) (data gm) = None"
    using assms(1) by (simp add: passesValidation_def gridWidth_def gridHeight_def)
  have diff: "js_sne (js_div (length_y (info gm)) (resolution (info gm)))
        (image_width (textures w (texture rd)))
      \<or> js_sne (js_div (length_x (info gm)) (resolution (info gm)))
        (image_height (textures w (texture rd)))"
    using assms(2) by (simp add: gridWidth_def gridHeight_def)
  have fin: "gridSize gm \<noteq> PosInf" using assms(3) by (rule ToIndex_finite)
  have alloc: "createTexture gm (dispose (texture rd) w) =
      Inr (next_texture w,
           w\<lparr>textures := (textures w)
                (texture rd := (textures w (texture rd))\<lparr>disposed := True\<rparr>,
                 next_texture w := blank gm n),
             next_texture := Suc (next_texture w)\<rparr>)"
    by (simp add: createTexture_eq assms(3) dispose_def)
  show ?thesis
    unfolding updateGridMapRenderable_def Let_def
    using diff
    by (simp add: chk alloc updateTexture_eq fin stamped_def gridWidth_def gridHeight_def)
qed

lemma handleOccupancyGrid_existing:
  assumes "renderables s (ev_topic ev) = Some rd" "normalizeGridMap e (ev_message ev) = Inr gm"
  shows "handleOccupancyGrid e ev s =
     (case updateGridMapRenderable e rd gm (toNanoSec (ev_receiveTime ev)) (wld s) of
        Inl x \<Rightarrow> Inl x
      | Inr (rd', w2) \<Rightarrow>
          Inr (s\<lparr>renderables := (renderables s)(ev_topic ev \<mapsto> rd'), wld := w2\<rparr>))"
  using assms by (simp add: handleOccupancyGrid_def Let_def)

lemma is_count_cases: "is_count n \<Longrightarrow> \<exists>k::nat. n = Num (of_nat k)"
proof (cases n)
  case (Num q)
  assume "is_count n"
  with Num have q: "0 \<le> q" "of_int \<lfloor>q\<rfloor> = q" by simp_all
  then have "0 \<le> \<lfloor>q\<rfloor>" by simp
  then have "of_nat (nat \<lfloor>q\<rfloor>) = q" using q(2) by (metis of_nat_nat)
  with Num show ?thesis by metis
qed simp_all



section \<open>A rejected message\<close>

text \<open>
  C3, as stated, fails: a message whose only layer declares one dimension is rejected, and
  the renderable then holds the rejected grid and its receive time.
\<close>

theorem rejected_message_overwrites_grid:
  "updateGridMapRenderable demoEnv demoRenderable (gridOf 2 2 [dims [4]]) 7 demoWorld =
     Inr (stamped demoEnv demoRenderable (gridOf 2 2 [dims [4]]) 7,
          demoWorld\<lparr>errors := (errors demoWorld)
             ((topic demoRenderable, INVALID_GRID_MAP) \<mapsto> InsufficientDimensions)\<rparr>) \<and>
   gridMap (stamped demoEnv demoRenderable (gridOf 2 2 [dims [4]]) 7) = gridOf 2 2 [dims [4]] \<and>
   gridMap demoRenderable = gridOf 2 2 [dims [2, 2]] \<and>
   gridOf 2 2 [dims [4]] \<noteq> gridOf 2 2 [dims [2, 2]] \<and>
   receiveTime (stamped demoEnv demoRenderable (gridOf 2 2 [dims [4]]) 7) = 7 \<and>
   receiveTime demoRenderable = 0"
proof -
  have "checkLayers (gridWidth (gridOf 2 2 [dims [4]])) (gridHeight (gridOf 2 2 [dims [4]]))
      (data (gridOf 2 2 [dims [4]])) = Some InsufficientDimensions"
    by (simp add: gridOf_def dims_def)
  then show ?thesis
    by (simp add: update_rejected) (simp add: stamped_def demoRenderable_def gridOf_def dims_def)
qed

text \<open>
  C3 (amended). When validation fails the update returns at that point with one diagnostic
  recorded under the topic and the fixed code: the texture store, the renderable's texture
  and material, its settings, its scale and its topic are as before; the active grid, the
  pose, the two timestamps and the frame id, assigned before validation, are those of the
  rejected message.
\<close>

theorem rejected_update_keeps_raster:
  "checkLayers (gridWidth gm) (gridHeight gm) (data gm) = Some m \<longrightarrow>
     (\<exists>rd' w'. updateGridMapRenderable e rd gm rt w = Inr (rd', w') \<and>
        errors w' = (errors w)((topic rd, INVALID_GRID_MAP) \<mapsto> m) \<and>
        textures w' = textures w \<and> next_texture w' = next_texture w \<and>
        texture rd' = texture rd \<and> material_map rd' = material_map rd \<and>
        material_transparent rd' = material_transparent rd \<and>
        material_depthWrite rd' = material_depthWrite rd \<and>
        settings rd' = settings rd \<and> scale rd' = scale rd \<and> topic rd' = topic rd \<and>
        gridMap rd' = gm \<and> pose_ud rd' = pose (info gm) \<and> receiveTime rd' = rt \<and>
        messageTime rd' = toNanoSec (stamp (header gm)) \<and>
        frameId rd' = normalizeFrameId e (frame_id (header gm)))"
  by (simp add: update_rejected stamped_def)

theorem rejected_update_keeps_raster_witness:
  "\<exists>rd' w'. updateGridMapRenderable demoEnv demoRenderable (gridOf 2 2 [dims [2, 2], dims [3, 3]])
        7 demoWorld = Inr (rd', w') \<and>
     errors w' (''/grid'', INVALID_GRID_MAP) = Some (SizeMismatch (Num 2) (Num 2)) \<and>
     textures w' = textures demoWorld \<and> texture rd' = 0 \<and> scale rd' = (Num 2, Num 2, Num 1) \<and>
     receiveTime rd' = 7"
proof -
  have "checkLayers (gridWidth (gridOf 2 2 [dims [2, 2], dims [3, 3]]))
      (gridHeight (gridOf 2 2 [dims [2, 2], dims [3, 3]]))
      (data (gridOf 2 2 [dims [2, 2], dims [3, 3]])) = Some (SizeMismatch (Num 2) (Num 2))"
    by (simp add: gridOf_def dims_def gridWidth_def gridHeight_def layer_size_def js_sne_def
        js_seq_def fl_dyadic)
  with rejected_update_keeps_raster
    [of "gridOf 2 2 [dims [2, 2], dims [3, 3]]" "SizeMismatch (Num 2) (Num 2)" demoEnv
        demoRenderable 7 demoWorld]
  show ?thesis by (auto simp: demoRenderable_def)
qed

section \<open>The raster of a grid that passes validation\<close>













section \<open>The stored bytes\<close>







text \<open>
  The bytes are stored through a \<^verbatim>\<open>Uint8ClampedArray\<close>, which rounds to the nearest integer.
  The loop never hands over a value other than 0, so this rounding never meets a fraction;
  at a value of 50 between the channels 0 and 255 it would store 128 for 127.5.
\<close>

lemma store_rounds_to_nearest:
  "paintCell \<lparr>tempMinColor = \<lparr>r = 0, g = 0, b = 0, a = 255\<rparr>,
              tempMaxColor = \<lparr>r = 255, g = 255, b = 255, a = 255\<rparr>,
              tempUnknownColor = \<lparr>r = 0, g = 0, b = 0, a = 0\<rparr>,
              tempInvalidColor = \<lparr>r = 0, g = 0, b = 0, a = 0\<rparr>\<rparr> 50 0 [0, 0, 0, 0]
     = [128, 128, 128, 255]"
  by (simp add: paintCell_def cellRgba_def store_def rd_dyadic ToUint8Clamp_def
      floor_rat_numeral Let_def)

section \<open>The length of an allocated raster\<close>















section \<open>Reuse and reallocation of the raster\<close>







section \<open>Grids that pass validation without being valid\<close>

text \<open>
  With the decoder's defaults (resolution and extents 0) the width and the height are NaN,
  which \<^verbatim>\<open>!==\<close> tells apart from every number including itself: such a grid, passing
  validation without layers, gets a new empty texture at every update.
\<close>

lemma nan_grid_reallocates:
  assumes "resolution (info gm) = Num 0" "length_x (info gm) = Num 0"
    "length_y (info gm) = Num 0" "data gm = []"
  shows "updateGridMapRenderable e rd gm rt w =
     Inr ((stamped e rd gm rt)
            \<lparr>texture := next_texture w, material_map := next_texture w,
             scale := (NaN, NaN, Num 1)\<rparr>,
          w\<lparr>textures := (textures w)
               (texture rd := (textures w (texture rd))\<lparr>disposed := True\<rparr>,
                next_texture w := (blank gm 0)\<lparr>needsUpdate := True\<rparr>),
            next_texture := Suc (next_texture w)\<rparr>)"
proof -
  have d: "gridWidth gm = NaN" "gridHeight gm = NaN" "gridSize gm = NaN"
    using assms by (simp_all add: gridWidth_def gridHeight_def gridSize_def)
  have pass: "passesValidation gm" using assms(4) by (simp add: passesValidation_def)
  have diff: "js_sne (gridWidth gm) (image_width (textures w (texture rd)))
      \<or> js_sne (gridHeight gm) (image_height (textures w (texture rd)))"
    by (simp add: d js_sne_def js_seq_def)
  have idx: "ToIndex (js_mul (gridSize gm) (Num 4)) = Inr 0" by (simp add: d)
  have empty: "repainted (linearRamp e (settings rd)) gm (blank gm 0)
      = (blank gm 0)\<lparr>needsUpdate := True\<rparr>"
    by (simp add: repainted_def blank_def paintAll_def d)
  show ?thesis
    unfolding update_reallocates [OF pass diff idx] empty
    by (simp add: d assms(1))
qed

section \<open>Sample points of the double arithmetic\<close>

text \<open>
  Three computations whose double result differs from the exact one. The quotient 70 / 100
  and its product with 45 are the doubles next to 0.7 and 31.5, so the interpolation between
  the channels 0 and 45 at the value 70 is 31.499999999999996 and its byte is 31, where the
  exact 31.5 would give 32. The double next to 0.6, times 255, is 153 exactly, where the
  exact product lies below 153. The double next to 0.1 divides 0.5 to 5 exactly.
\<close>

lemma seven_tenths: "round_double (70 / 100) = 3152519739159347 / 4503599627370496"
  using round_double_certify [of "70 / 100" "- 1" 6305039478318694]
  by (simp add: power_int_minus)

lemma seven_tenths_of_45:
  "round_double (45 * (3152519739159347 / 4503599627370496))
     = 8866461766385663 / 281474976710656"
  using round_double_certify
    [of "45 * (3152519739159347 / 4503599627370496)" 4 8866461766385663]
  by (simp add: power_int_minus)

lemma seven_tenths_sum:
  "round_double (8866461766385663 / 281474976710656) = 8866461766385663 / 281474976710656"
  using round_double_certify [of "8866461766385663 / 281474976710656" 4 8866461766385663]
  by (simp add: power_int_minus)

lemma interpolation_in_doubles:
  "lerp 0 45 (70 / 100) = 8866461766385663 / 281474976710656"
  "ToUint8Clamp (lerp 0 45 (70 / 100)) = 31"
  "ToUint8Clamp (0 + (45 - 0) * (70 / 100)) = 32"
proof -
  have d: "round_double (45 - 0) = 45" by (simp add: rd_dyadic)
  have s: "round_double (0 + 8866461766385663 / 281474976710656)
      = 8866461766385663 / 281474976710656"
    using seven_tenths_sum by simp
  show l: "lerp 0 45 (70 / 100) = 8866461766385663 / 281474976710656"
    unfolding lerp_def seven_tenths d seven_tenths_of_45 s by (rule refl)
  show "ToUint8Clamp (lerp 0 45 (70 / 100)) = 31"
    unfolding l by (simp add: ToUint8Clamp_def floor_rat_numeral Let_def)
  show "ToUint8Clamp (0 + (45 - 0) * (70 / 100)) = 32"
    by (simp add: ToUint8Clamp_def floor_rat_numeral Let_def)
qed

lemma painted_in_doubles:
  "paintCell \<lparr>tempMinColor = \<lparr>r = 0, g = 0, b = 0, a = 255\<rparr>,
              tempMaxColor = \<lparr>r = 45, g = 45, b = 45, a = 255\<rparr>,
              tempUnknownColor = \<lparr>r = 0, g = 0, b = 0, a = 0\<rparr>,
              tempInvalidColor = \<lparr>r = 0, g = 0, b = 0, a = 0\<rparr>\<rparr> 70 0 [0, 0, 0, 0]
     = [31, 31, 31, 255]"
proof -
  have ne: "round_double (of_int 70 / 100) \<noteq> 1"
    using unit_interval_fraction [of 70] by simp
  have c: "cellRgba \<lparr>tempMinColor = \<lparr>r = 0, g = 0, b = 0, a = 255\<rparr>,
             tempMaxColor = \<lparr>r = 45, g = 45, b = 45, a = 255\<rparr>,
             tempUnknownColor = \<lparr>r = 0, g = 0, b = 0, a = 0\<rparr>,
             tempInvalidColor = \<lparr>r = 0, g = 0, b = 0, a = 0\<rparr>\<rparr> 70
      = (lerp 0 45 (70 / 100), lerp 0 45 (70 / 100),
         lerp 0 45 (70 / 100), 255)"
    using ne by (simp add: cellRgba_def lerp_def Let_def rd_dyadic)
  have k: "ToUint8Clamp 255 = 255" by (simp add: ToUint8Clamp_def)
  show ?thesis
    unfolding paintCell_def c using interpolation_in_doubles(2) k by (simp add: store_def)
qed

lemma three_fifths_byte:
  "trunc (round_double ((5404319552844595 / 9007199254740992) * 255)) = 153"
  "trunc ((5404319552844595 / 9007199254740992) * 255) = 152"
proof -
  have "round_double ((5404319552844595 / 9007199254740992) * 255) = 153"
    using round_double_certify
      [of "(5404319552844595 / 9007199254740992) * 255" 7 5383208929591296]
    by (simp add: power_int_minus)
  then show "trunc (round_double ((5404319552844595 / 9007199254740992) * 255)) = 153"
    by (simp add: trunc_def)
  show "trunc ((5404319552844595 / 9007199254740992) * 255) = 152"
    by (simp add: trunc_def floor_rat_numeral)
qed

end
